theory Spec2Isabelle
  imports Main "HOL-Library.Word"
begin

unbundle bit_operations_syntax

section \<open>rdmamap: RDMA devices, their character devices and their netdevices\<close>

text \<open>
  A shallow embedding of \<^verbatim>\<open>rdma_map.go\<close>. The package only reads the sysfs
  tree and asks netlink for the attributes of one link, so the outside world is a
  value that is passed to every function: what each directory and each file answers
  when it is opened and read, what \<^verbatim>\<open>os.Stat\<close> answers, and what
  \<^verbatim>\<open>netlink.LinkByName\<close> answers. A Go function returning
  \<^verbatim>\<open>(T, error)\<close> returns a pair whose second component is \<open>None\<close> for
  \<^verbatim>\<open>nil\<close>; a function that can hit a run-time panic returns an \<open>outcome\<close>.
\<close>

subsection \<open>Values, errors and the outside world\<close>

type_synonym byte = "8 word"

datatype error =
    PathError string
  | NumError string
  | LinkError string
  | ErrNoUcmDevice
  | ErrInvalidFileName
  | ErrNotFoundForNetdev string
  | ErrUnknownDeviceType

datatype panic = SliceBoundsOutOfRange | IndexOutOfRange

datatype 'a outcome = Return 'a | Panic panic

text \<open>
  \<^verbatim>\<open>os.Open\<close> followed by \<^verbatim>\<open>Readdir(-1)\<close> on a directory: the open
  fails, or the open succeeds and the read fails, or the entries come back, each with
  its name and its \<^verbatim>\<open>IsDir()\<close> flag, in the order of the listing.
\<close>

record FileInfo =
  Name :: string
  IsDir :: bool

datatype dir_state =
    OpenDirFails error
  | ReaddirFails error
  | Entries "FileInfo list"

text \<open>
  \<^verbatim>\<open>os.OpenFile\<close>, \<^verbatim>\<open>Seek(0, io.SeekStart)\<close> and
  \<^verbatim>\<open>io.ReadAll\<close> on a file: each of the three can fail, or the bytes come back.
\<close>

datatype file_state =
    OpenFileFails error
  | SeekFails error
  | ReadAllFails error
  | Contents string

record LinkAttrs =
  EncapType :: string
  HardwareAddr :: "byte list"

record world =
  dirs :: "string \<Rightarrow> dir_state"
  files :: "string \<Rightarrow> file_state"
  stat :: "string \<Rightarrow> error + string"
  LinkByName :: "string \<Rightarrow> error + LinkAttrs"

subsection \<open>Constants and package variables\<close>

definition RdmaUcmFilePrefix :: string where "RdmaUcmFilePrefix = ''ucm''"
definition RdmaIssmFilePrefix :: string where "RdmaIssmFilePrefix = ''issm''"
definition RdmaUmadFilxPrefix :: string where "RdmaUmadFilxPrefix = ''umad''"
definition RdmaUverbsFilxPrefix :: string where "RdmaUverbsFilxPrefix = ''uverbs''"
definition RdmaGidAttrDir :: string where "RdmaGidAttrDir = ''gid_attrs''"
definition RdmaGidAttrNdevDir :: string where "RdmaGidAttrNdevDir = ''ndevs''"
definition RdmaPortsdir :: string where "RdmaPortsdir = ''ports''"
definition RdmaNodeGuidFile :: string where "RdmaNodeGuidFile = ''node_guid''"
definition prevDir :: string where "prevDir = ''..''"
definition nibbleBitSize :: nat where "nibbleBitSize = 4"

text \<open>The package variables, at the values they are initialised with.\<close>

definition RdmaClassDir :: string where "RdmaClassDir = ''/sys/class/infiniband''"
definition RdmaIbUcmDir :: string where "RdmaIbUcmDir = ''/sys/class/infiniband_cm''"
definition RdmaUmadDir :: string where "RdmaUmadDir = ''/sys/class/infiniband_mad''"
definition RdmaUverbsDir :: string where "RdmaUverbsDir = ''/sys/class/infiniband_verbs''"
definition RdmaUcmDevice :: string where "RdmaUcmDevice = ''/dev/infiniband/rdma_cm''"

subsection \<open>Library functions the package calls\<close>

definition newline :: char where "newline = CHR 0x0A"

text \<open>
  \<^verbatim>\<open>filepath.Join\<close>: the non-empty elements separated by a slash. The lexical
  cleaning of the result (\<^verbatim>\<open>filepath.Clean\<close>) is left out: every path built here
  is a clean root followed by entry names, and the world is indexed by the resulting string.
\<close>

fun Join :: "string list \<Rightarrow> string" where
  "Join [] = []"
| "Join (e # es) =
     (if e = [] then Join es
      else if Join es = [] then e
      else e @ ''/'' @ Join es)"

fun HasPrefix :: "string \<Rightarrow> string \<Rightarrow> bool" where
  "HasPrefix s [] = True"
| "HasPrefix [] (p # ps) = False"
| "HasPrefix (c # cs) (p # ps) = (c = p \<and> HasPrefix cs ps)"

text \<open>\<^verbatim>\<open>strings.Contains\<close>: the second string occurs somewhere in the first.\<close>

fun Contains :: "string \<Rightarrow> string \<Rightarrow> bool" where
  "Contains [] substr = (substr = [])"
| "Contains (c # cs) substr = (HasPrefix (c # cs) substr \<or> Contains cs substr)"

text \<open>\<^verbatim>\<open>strings.Trim(s, "\n")\<close>: every leading and every trailing newline goes.\<close>

definition Trim_newlines :: "string \<Rightarrow> string" where
  "Trim_newlines s =
     rev (dropWhile (\<lambda>c. c = newline) (rev (dropWhile (\<lambda>c. c = newline) s)))"

text \<open>\<^verbatim>\<open>strings.TrimSuffix(s, "\n")\<close>: one trailing newline goes, if there is one.\<close>

definition TrimSuffix_newline :: "string \<Rightarrow> string" where
  "TrimSuffix_newline s =
     (if s \<noteq> [] \<and> last s = newline then butlast s else s)"

text \<open>
  The conversion \<^verbatim>\<open>string(b)\<close> of a byte: the UTF-8 encoding of the code point
  \<open>b\<close>, which is the byte itself below 128 and two bytes from 128 on.
\<close>

definition byte_string :: "char \<Rightarrow> string" where
  "byte_string b =
     (let n = (of_char b :: nat) in
      if n < 128 then [b]
      else [char_of (192 + n div 64), char_of (128 + n mod 64)])"

text \<open>
  \<^verbatim>\<open>strconv.ParseUint(string(b), 16, 8)\<close> for one byte \<open>b\<close>: a decimal digit
  or a letter up to f, in either case, has its value; every other byte, and the two
  bytes that stand for a byte from 128 on, are a syntax error that carries the string.
\<close>

definition ParseUint :: "char \<Rightarrow> error + nat" where
  "ParseUint b =
     (let n = (of_char b :: nat) in
      if 48 \<le> n \<and> n \<le> 57 then Inr (n - 48)
      else if 97 \<le> n \<and> n \<le> 102 then Inr (n - 97 + 10)
      else if 65 \<le> n \<and> n \<le> 70 then Inr (n - 65 + 10)
      else Inl (NumError (byte_string b)))"

subsection \<open>Listing the RDMA devices\<close>

fun GetRdmaDeviceList_loop :: "FileInfo list \<Rightarrow> string list" where
  "GetRdmaDeviceList_loop [] = []"
| "GetRdmaDeviceList_loop (fi # fileInfos) =
     (if IsDir fi then GetRdmaDeviceList_loop fileInfos
      else Name fi # GetRdmaDeviceList_loop fileInfos)"

definition GetRdmaDeviceList :: "world \<Rightarrow> string list" where
  "GetRdmaDeviceList w =
     (case dirs w RdmaClassDir of
        OpenDirFails err \<Rightarrow> []
      | ReaddirFails err \<Rightarrow> []
      | Entries fileInfos \<Rightarrow> GetRdmaDeviceList_loop fileInfos)"

subsection \<open>Character devices\<close>

definition isDirForRdmaDevice :: "world \<Rightarrow> string \<Rightarrow> string \<Rightarrow> bool" where
  "isDirForRdmaDevice w rdmaDeviceName dirName =
     (let fileName = Join [dirName, ''ibdev''] in
      case files w fileName of
        OpenFileFails err \<Rightarrow> False
      | SeekFails err \<Rightarrow> False
      | ReadAllFails err \<Rightarrow> False
      | Contents data \<Rightarrow> Trim_newlines data = rdmaDeviceName)"

fun getCharDevice_loop ::
  "world \<Rightarrow> string \<Rightarrow> string \<Rightarrow> string \<Rightarrow> FileInfo list \<Rightarrow> string \<times> error option" where
  "getCharDevice_loop w rdmaDeviceName classDir charDevPrefix [] = ([], Some ErrNoUcmDevice)"
| "getCharDevice_loop w rdmaDeviceName classDir charDevPrefix (fi # fileInfos) =
     (if Name fi = ''.'' \<or> Name fi = prevDir
      then getCharDevice_loop w rdmaDeviceName classDir charDevPrefix fileInfos
      else if \<not> Contains (Name fi) charDevPrefix
      then getCharDevice_loop w rdmaDeviceName classDir charDevPrefix fileInfos
      else let dirName = Join [classDir, Name fi] in
        if \<not> isDirForRdmaDevice w rdmaDeviceName dirName
        then getCharDevice_loop w rdmaDeviceName classDir charDevPrefix fileInfos
        else (Join [''/dev/infiniband'', Name fi], None))"

definition getCharDevice :: "world \<Rightarrow> string \<Rightarrow> string \<Rightarrow> string \<Rightarrow> string \<times> error option" where
  "getCharDevice w rdmaDeviceName classDir charDevPrefix =
     (case dirs w classDir of
        OpenDirFails err \<Rightarrow> ([], Some err)
      | ReaddirFails err \<Rightarrow> ([], None)
      | Entries fileInfos \<Rightarrow>
          getCharDevice_loop w rdmaDeviceName classDir charDevPrefix fileInfos)"

definition getUcmDevice :: "world \<Rightarrow> string \<Rightarrow> string \<times> error option" where
  "getUcmDevice w rdmaDeviceName = getCharDevice w rdmaDeviceName RdmaIbUcmDir RdmaUcmFilePrefix"

definition getIssmDevice :: "world \<Rightarrow> string \<Rightarrow> string \<times> error option" where
  "getIssmDevice w rdmaDeviceName = getCharDevice w rdmaDeviceName RdmaUmadDir RdmaIssmFilePrefix"

definition getUmadDevice :: "world \<Rightarrow> string \<Rightarrow> string \<times> error option" where
  "getUmadDevice w rdmaDeviceName = getCharDevice w rdmaDeviceName RdmaUmadDir RdmaUmadFilxPrefix"

definition getUverbDevice :: "world \<Rightarrow> string \<Rightarrow> string \<times> error option" where
  "getUverbDevice w rdmaDeviceName =
     getCharDevice w rdmaDeviceName RdmaUverbsDir RdmaUverbsFilxPrefix"

definition getRdmaUcmDevice :: "world \<Rightarrow> string \<times> error option" where
  "getRdmaUcmDevice w =
     (case stat w RdmaUcmDevice of
        Inl err \<Rightarrow> ([], Some err)
      | Inr name \<Rightarrow>
          if name = ''rdma_cm'' then (RdmaUcmDevice, None)
          else ([], Some ErrInvalidFileName))"

text \<open>
  \<^verbatim>\<open>GetRdmaCharDevices\<close> appends the result of each of the five lookups whose
  error is \<^verbatim>\<open>nil\<close>, in this order.
\<close>

definition append_if_ok :: "string list \<Rightarrow> string \<times> error option \<Rightarrow> string list" where
  "append_if_ok rdmaCharDevices r =
     (case r of (dev, err) \<Rightarrow> if err = None then rdmaCharDevices @ [dev] else rdmaCharDevices)"

definition GetRdmaCharDevices :: "world \<Rightarrow> string \<Rightarrow> string list" where
  "GetRdmaCharDevices w rdmaDeviceName =
     (let rdmaCharDevices = [];
          rdmaCharDevices = append_if_ok rdmaCharDevices (getUcmDevice w rdmaDeviceName);
          rdmaCharDevices = append_if_ok rdmaCharDevices (getIssmDevice w rdmaDeviceName);
          rdmaCharDevices = append_if_ok rdmaCharDevices (getUmadDevice w rdmaDeviceName);
          rdmaCharDevices = append_if_ok rdmaCharDevices (getUverbDevice w rdmaDeviceName);
          rdmaCharDevices = append_if_ok rdmaCharDevices (getRdmaUcmDevice w)
      in rdmaCharDevices)"

subsection \<open>Ports and netdevice indices\<close>

text \<open>The loop shared by \<^verbatim>\<open>GetPorts\<close> and \<^verbatim>\<open>getNetdeviceIds\<close>.\<close>

fun names_loop :: "FileInfo list \<Rightarrow> string list" where
  "names_loop [] = []"
| "names_loop (fi # fileInfos) =
     (if Name fi = ''.'' \<or> Name fi = prevDir then names_loop fileInfos
      else Name fi # names_loop fileInfos)"

definition GetPorts :: "world \<Rightarrow> string \<Rightarrow> string list" where
  "GetPorts w rdmaDeviceName =
     (let portsDir = Join [RdmaClassDir, rdmaDeviceName, RdmaPortsdir] in
      case dirs w portsDir of
        OpenDirFails err \<Rightarrow> []
      | ReaddirFails err \<Rightarrow> []
      | Entries fileInfos \<Rightarrow> names_loop fileInfos)"

definition getNetdeviceIds :: "world \<Rightarrow> string \<Rightarrow> string \<Rightarrow> string list" where
  "getNetdeviceIds w rdmaDeviceName port =
     (let dir = Join [RdmaClassDir, rdmaDeviceName, RdmaPortsdir, port,
                      RdmaGidAttrDir, RdmaGidAttrNdevDir] in
      case dirs w dir of
        OpenDirFails err \<Rightarrow> []
      | ReaddirFails err \<Rightarrow> []
      | Entries fileInfos \<Rightarrow> names_loop fileInfos)"

subsection \<open>Resolution of an Ethernet netdevice\<close>

definition ndev_file :: "string \<Rightarrow> string \<Rightarrow> string \<Rightarrow> string" where
  "ndev_file rdmaDeviceName port index =
     Join [RdmaClassDir, rdmaDeviceName, RdmaPortsdir, port,
           RdmaGidAttrDir, RdmaGidAttrNdevDir, index]"

definition isNetdevForRdma :: "world \<Rightarrow> string \<Rightarrow> string \<Rightarrow> string \<Rightarrow> string \<Rightarrow> bool" where
  "isNetdevForRdma w rdmaDeviceName port index netdevName =
     (let fileName = ndev_file rdmaDeviceName port index in
      case files w fileName of
        OpenFileFails err \<Rightarrow> False
      | SeekFails err \<Rightarrow> False
      | ReadAllFails err \<Rightarrow> False
      | Contents data \<Rightarrow> TrimSuffix_newline data = netdevName)"

text \<open>
  The three nested loops of \<^verbatim>\<open>getRdmaDeviceForEth\<close>. The two inner ones say
  whether the \<^verbatim>\<open>return dev, nil\<close> in the innermost body was reached.
\<close>

fun getRdmaDeviceForEth_indices :: "world \<Rightarrow> string \<Rightarrow> string \<Rightarrow> string list \<Rightarrow> string \<Rightarrow> bool" where
  "getRdmaDeviceForEth_indices w dev port [] netdevName = False"
| "getRdmaDeviceForEth_indices w dev port (index # indices) netdevName =
     (let found = isNetdevForRdma w dev port index netdevName in
      if found then True
      else getRdmaDeviceForEth_indices w dev port indices netdevName)"

fun getRdmaDeviceForEth_ports :: "world \<Rightarrow> string \<Rightarrow> string list \<Rightarrow> string \<Rightarrow> bool" where
  "getRdmaDeviceForEth_ports w dev [] netdevName = False"
| "getRdmaDeviceForEth_ports w dev (port # ports) netdevName =
     (let indices = getNetdeviceIds w dev port in
      if getRdmaDeviceForEth_indices w dev port indices netdevName then True
      else getRdmaDeviceForEth_ports w dev ports netdevName)"

fun getRdmaDeviceForEth_devices :: "world \<Rightarrow> string list \<Rightarrow> string \<Rightarrow> string \<times> error option" where
  "getRdmaDeviceForEth_devices w [] netdevName = ([], Some (ErrNotFoundForNetdev netdevName))"
| "getRdmaDeviceForEth_devices w (dev # devices) netdevName =
     (let ports = GetPorts w dev in
      if getRdmaDeviceForEth_ports w dev ports netdevName then (dev, None)
      else getRdmaDeviceForEth_devices w devices netdevName)"

definition getRdmaDeviceForEth :: "world \<Rightarrow> string \<Rightarrow> string \<times> error option" where
  "getRdmaDeviceForEth w netdevName =
     (let devices = GetRdmaDeviceList w in
      getRdmaDeviceForEth_devices w devices netdevName)"

subsection \<open>The node GUID\<close>

text \<open>
  The loop of \<^verbatim>\<open>getNodeGUID\<close> over the bytes of the file, with the slice
  \<open>nodeGUID\<close> and the counter \<open>j\<close> as its state. The indexed update
  \<^verbatim>\<open>nodeGUID[j/2] |= byte(c)\<close> panics when the index is out of range.
\<close>

fun getNodeGUID_loop :: "string \<Rightarrow> byte list \<Rightarrow> nat \<Rightarrow> (byte list \<times> error option) outcome" where
  "getNodeGUID_loop [] nodeGUID j = Return (nodeGUID, None)"
| "getNodeGUID_loop (b # data) nodeGUID j =
     (if b = CHR '':'' then getNodeGUID_loop data nodeGUID j
      else case ParseUint b of
        Inl err \<Rightarrow> Return ([], Some err)
      | Inr c \<Rightarrow>
          if j mod 2 = 0
          then getNodeGUID_loop data (nodeGUID @ [push_bit nibbleBitSize (of_nat c)]) (j + 1)
          else if j div 2 < length nodeGUID
          then getNodeGUID_loop data
                 (nodeGUID[j div 2 := (nodeGUID ! (j div 2)) OR of_nat c]) (j + 1)
          else Panic IndexOutOfRange)"

definition node_guid_file :: "string \<Rightarrow> string" where
  "node_guid_file rdmaDeviceName = Join [RdmaClassDir, rdmaDeviceName, RdmaNodeGuidFile]"

definition getNodeGUID :: "world \<Rightarrow> string \<Rightarrow> (byte list \<times> error option) outcome" where
  "getNodeGUID w rdmaDeviceName =
     (let fileName = node_guid_file rdmaDeviceName in
      case files w fileName of
        OpenFileFails err \<Rightarrow> Return ([], Some err)
      | SeekFails err \<Rightarrow> Return ([], Some err)
      | ReadAllFails err \<Rightarrow> Return ([], Some err)
      | Contents data \<Rightarrow>
          if length data < 1 then Panic SliceBoundsOutOfRange
          else getNodeGUID_loop (take (length data - 1) data) [] 0)"

subsection \<open>Resolution of an InfiniBand netdevice\<close>

text \<open>
  The slice expression \<^verbatim>\<open>linkAttr.HardwareAddr[12:]\<close>: it panics when the
  address has fewer than 12 bytes.
\<close>

definition lleui64 :: "byte list \<Rightarrow> byte list outcome" where
  "lleui64 hardwareAddr =
     (if length hardwareAddr < 12 then Panic SliceBoundsOutOfRange
      else Return (drop 12 hardwareAddr))"

fun getRdmaDeviceForIb_loop :: "world \<Rightarrow> byte list \<Rightarrow> string list \<Rightarrow> (string \<times> error option) outcome" where
  "getRdmaDeviceForIb_loop w eui [] = Return ([], None)"
| "getRdmaDeviceForIb_loop w eui (dev # devices) =
     (case getNodeGUID w dev of
        Panic p \<Rightarrow> Panic p
      | Return (nodeGUID, err) \<Rightarrow>
          (case err of
             Some e \<Rightarrow> Return ([], Some e)
           | None \<Rightarrow>
               if eui = nodeGUID then Return (dev, None)
               else getRdmaDeviceForIb_loop w eui devices))"

definition getRdmaDeviceForIb :: "world \<Rightarrow> LinkAttrs \<Rightarrow> (string \<times> error option) outcome" where
  "getRdmaDeviceForIb w linkAttr =
     (case lleui64 (HardwareAddr linkAttr) of
        Panic p \<Rightarrow> Panic p
      | Return eui \<Rightarrow>
          (let devices = GetRdmaDeviceList w in
           getRdmaDeviceForIb_loop w eui devices))"

subsection \<open>Resolution of any netdevice\<close>

definition GetRdmaDeviceForNetdevice :: "world \<Rightarrow> string \<Rightarrow> (string \<times> error option) outcome" where
  "GetRdmaDeviceForNetdevice w netdevName =
     (case LinkByName w netdevName of
        Inl err \<Rightarrow> Return ([], Some err)
      | Inr netAttr \<Rightarrow>
          if EncapType netAttr = ''ether'' then Return (getRdmaDeviceForEth w netdevName)
          else if EncapType netAttr = ''infiniband'' then getRdmaDeviceForIb w netAttr
          else Return ([], Some ErrUnknownDeviceType))"

definition IsRDmaDeviceForNetdevice :: "world \<Rightarrow> string \<Rightarrow> bool outcome" where
  "IsRDmaDeviceForNetdevice w netdevName =
     (case GetRdmaDeviceForNetdevice w netdevName of
        Panic p \<Rightarrow> Panic p
      | Return (rdma, err) \<Rightarrow> Return (rdma \<noteq> []))"

subsection \<open>Notions used to state the properties\<close>

text \<open>A byte that \<^verbatim>\<open>ParseUint\<close> accepts as one hexadecimal digit.\<close>

definition is_hex :: "char \<Rightarrow> bool" where
  "is_hex b = (case ParseUint b of Inl err \<Rightarrow> False | Inr c \<Rightarrow> True)"

text \<open>A byte on which the loop of \<^verbatim>\<open>getNodeGUID\<close> stops with an error.\<close>

definition bad_byte :: "char \<Rightarrow> bool" where
  "bad_byte b = (b \<noteq> CHR '':'' \<and> \<not> is_hex b)"

text \<open>
  A well-formed colon-separated identifier: groups of two hexadecimal digits with one
  colon between neighbouring groups. Eight groups make 23 characters.
\<close>

fun well_formed :: "string \<Rightarrow> bool" where
  "well_formed [a, b] = (is_hex a \<and> is_hex b)"
| "well_formed (a # b # c # rest) =
     (is_hex a \<and> is_hex b \<and> c = CHR '':'' \<and> well_formed rest)"
| "well_formed _ = False"

text \<open>Lower-casing of one ASCII character, and of a string.\<close>

definition toLower :: "char \<Rightarrow> char" where
  "toLower c =
     (let n = (of_char c :: nat) in if 65 \<le> n \<and> n \<le> 90 then char_of (n + 32) else c)"

text \<open>
  The encoding of a byte sequence the round trip compares with: two lower-case
  hexadecimal digits for each byte, high nibble first, and a colon between bytes.
\<close>

definition hexchar :: "nat \<Rightarrow> char" where
  "hexchar n = (if n < 10 then char_of (48 + n) else char_of (87 + n))"

definition encode_byte :: "byte \<Rightarrow> string" where
  "encode_byte x = [hexchar (unat (drop_bit 4 x)), hexchar (unat (x AND 15))]"

fun encode_guid :: "byte list \<Rightarrow> string" where
  "encode_guid [] = []"
| "encode_guid [x] = encode_byte x"
| "encode_guid (x # y # ys) = encode_byte x @ '':'' @ encode_guid (y # ys)"

text \<open>
  A netdevice is attached to a device when some index file of some port of the device
  can be read and holds the name of the netdevice, one trailing newline apart.
\<close>

definition attached :: "world \<Rightarrow> string \<Rightarrow> string \<Rightarrow> bool" where
  "attached w dev netdevName =
     (\<exists>port \<in> set (GetPorts w dev). \<exists>index \<in> set (getNetdeviceIds w dev port).
        case files w (ndev_file dev port index) of
          Contents data \<Rightarrow> TrimSuffix_newline data = netdevName
        | _ \<Rightarrow> False)"

text \<open>
  A device is passed over by the InfiniBand scan when its node GUID is read and parsed
  without error and differs from the bytes looked for.
\<close>

definition passed_over :: "world \<Rightarrow> byte list \<Rightarrow> string \<Rightarrow> bool" where
  "passed_over w eui dev =
     (case getNodeGUID w dev of
        Return (nodeGUID, None) \<Rightarrow> nodeGUID \<noteq> eui
      | _ \<Rightarrow> False)"

text \<open>The last \<open>k\<close> elements of a list.\<close>

definition last_bytes :: "nat \<Rightarrow> 'a list \<Rightarrow> 'a list" where
  "last_bytes k xs = drop (length xs - k) xs"

subsection \<open>Example worlds\<close>

definition ENOENT :: error where
  "ENOENT = PathError ''no such file or directory''"

definition ENOTDIR :: error where
  "ENOTDIR = PathError ''not a directory''"

definition file_entry :: "string \<Rightarrow> FileInfo" where
  "file_entry n = \<lparr>Name = n, IsDir = False\<rparr>"

definition dir_entry :: "string \<Rightarrow> FileInfo" where
  "dir_entry n = \<lparr>Name = n, IsDir = True\<rparr>"

text \<open>A world in which nothing exists.\<close>

definition no_world :: world where
  "no_world =
     \<lparr>dirs = (\<lambda>p. OpenDirFails ENOENT),
      files = (\<lambda>p. OpenFileFails ENOENT),
      stat = (\<lambda>p. Inl ENOENT),
      LinkByName = (\<lambda>n. Inl (LinkError ''Link not found''))\<rparr>"

text \<open>
  A host with two RDMA devices: \<open>mlx5_0\<close> backs the Ethernet interface \<open>eth0\<close>
  and owns the character devices, \<open>mlx5_1\<close> backs the IPoIB interface \<open>ib0\<close>.
\<close>

definition sysfs_dirs :: "string \<Rightarrow> dir_state" where
  "sysfs_dirs =
     (\<lambda>p. OpenDirFails ENOENT)
     (''/sys/class/infiniband'' := Entries [file_entry ''mlx5_0'', file_entry ''mlx5_1''],
      ''/sys/class/infiniband/mlx5_0/ports'' := Entries [dir_entry ''1''],
      ''/sys/class/infiniband/mlx5_1/ports'' := Entries [dir_entry ''1''],
      ''/sys/class/infiniband/mlx5_0/ports/1/gid_attrs/ndevs'' := Entries [file_entry ''0''],
      ''/sys/class/infiniband/mlx5_1/ports/1/gid_attrs/ndevs'' := Entries [file_entry ''0''],
      ''/sys/class/infiniband_cm'' := Entries [file_entry ''ucm0''],
      ''/sys/class/infiniband_mad'' := Entries [file_entry ''umad0'', file_entry ''issm0''],
      ''/sys/class/infiniband_verbs'' := Entries [file_entry ''uverbs0''])"

definition sysfs_files :: "string \<Rightarrow> file_state" where
  "sysfs_files =
     (\<lambda>p. OpenFileFails ENOENT)
     (''/sys/class/infiniband/mlx5_0/node_guid'' := Contents (''0002:c903:0033:1a84'' @ [newline]),
      ''/sys/class/infiniband/mlx5_1/node_guid'' :=
         Contents (''AA:bb:0C:dd:ee:ff:00:11'' @ [newline]),
      ''/sys/class/infiniband/mlx5_0/ports/1/gid_attrs/ndevs/0'' :=
         Contents (''eth0'' @ [newline]),
      ''/sys/class/infiniband/mlx5_1/ports/1/gid_attrs/ndevs/0'' :=
         Contents (''ib0'' @ [newline]),
      ''/sys/class/infiniband_cm/ucm0/ibdev'' := Contents (''mlx5_0'' @ [newline]),
      ''/sys/class/infiniband_mad/umad0/ibdev'' := Contents (''mlx5_0'' @ [newline]),
      ''/sys/class/infiniband_mad/issm0/ibdev'' := Contents (''mlx5_0'' @ [newline]),
      ''/sys/class/infiniband_verbs/uverbs0/ibdev'' := Contents (''mlx5_0'' @ [newline]))"

definition ib0_addr :: "byte list" where
  "ib0_addr = [0x80, 0x00, 0x00, 0x48, 0xfe, 0x80, 0x00, 0x00, 0x00, 0x00, 0x00, 0x00,
               0xaa, 0xbb, 0x0c, 0xdd, 0xee, 0xff, 0x00, 0x11]"

definition eth0_addr :: "byte list" where
  "eth0_addr = [0x02, 0x42, 0xac, 0x11, 0x00, 0x02]"

definition sysfs_links :: "string \<Rightarrow> error + LinkAttrs" where
  "sysfs_links =
     (\<lambda>n. Inl (LinkError ''Link not found''))
     (''eth0'' := Inr \<lparr>EncapType = ''ether'', HardwareAddr = eth0_addr\<rparr>,
      ''ib0'' := Inr \<lparr>EncapType = ''infiniband'', HardwareAddr = ib0_addr\<rparr>,
      ''lo'' := Inr \<lparr>EncapType = ''loopback'', HardwareAddr = []\<rparr>)"

definition sysfs_world :: world where
  "sysfs_world =
     \<lparr>dirs = sysfs_dirs,
      files = sysfs_files,
      stat = (\<lambda>p. Inl ENOENT)(''/dev/infiniband/rdma_cm'' := Inr ''rdma_cm''),
      LinkByName = sysfs_links\<rparr>"

text \<open>The same host with another content of the node GUID file of \<open>mlx5_0\<close>.\<close>

definition with_guid :: "string \<Rightarrow> world" where
  "with_guid data =
     sysfs_world\<lparr>files := (files sysfs_world)
        (''/sys/class/infiniband/mlx5_0/node_guid'' := Contents data)\<rparr>"

text \<open>
  The same host where \<open>/sys/class/infiniband_cm\<close> opens but cannot be listed, as
  when the path is not a directory.
\<close>

definition unlistable_cm_world :: world where
  "unlistable_cm_world =
     sysfs_world\<lparr>dirs := (dirs sysfs_world)
        (''/sys/class/infiniband_cm'' := ReaddirFails ENOTDIR)\<rparr>"

section \<open>The node GUID parser\<close>

lemmas path_defs =
  RdmaClassDir_def RdmaIbUcmDir_def RdmaUmadDir_def RdmaUverbsDir_def RdmaUcmDevice_def
  RdmaUcmFilePrefix_def RdmaIssmFilePrefix_def RdmaUmadFilxPrefix_def RdmaUverbsFilxPrefix_def
  RdmaGidAttrDir_def RdmaGidAttrNdevDir_def RdmaPortsdir_def RdmaNodeGuidFile_def prevDir_def
  node_guid_file_def ndev_file_def

lemmas world_defs =
  sysfs_world_def sysfs_dirs_def sysfs_files_def sysfs_links_def with_guid_def
  unlistable_cm_world_def no_world_def file_entry_def dir_entry_def

lemma nibble_cases:
  "(k::nat) < 16 \<Longrightarrow>
   k \<in> {15, 14, 13, 12} \<or> k \<in> {11, 10, 9, 8} \<or> k \<in> {7, 6, 5, 4} \<or> k \<in> {3, 2, 1, 0}"
  by simp arith

lemma pack_hi:
  "n < 16 \<Longrightarrow> m < 16 \<Longrightarrow> unat (drop_bit 4 (push_bit 4 (of_nat n) OR of_nat m :: byte)) = n"
  by (drule nibble_cases, drule nibble_cases) (elim disjE insertE emptyE; simp)

lemma pack_lo:
  "n < 16 \<Longrightarrow> m < 16 \<Longrightarrow> unat ((push_bit 4 (of_nat n) OR of_nat m :: byte) AND 15) = m"
  by (drule nibble_cases, drule nibble_cases) (elim disjE insertE emptyE; simp)

lemma ParseUint_Inr:
  "ParseUint a = Inr n \<Longrightarrow> n < 16 \<and> hexchar n = toLower a \<and> a \<noteq> CHR '':''"
  unfolding ParseUint_def hexchar_def toLower_def Let_def
  by (auto split: if_splits)

lemma ParseUint_Inl: "ParseUint b = Inl e \<Longrightarrow> e = NumError (byte_string b)"
  by (auto simp: ParseUint_def Let_def split: if_splits)

lemma is_hex_Inr: "is_hex a \<Longrightarrow> \<exists>n. ParseUint a = Inr n"
  by (auto simp: is_hex_def split: sum.splits)

lemma toLower_colon: "toLower (CHR '':'') = CHR '':''"
  by (simp add: toLower_def)

lemma getNodeGUID_Contents:
  "files w (node_guid_file dev) = Contents data \<Longrightarrow>
   getNodeGUID w dev =
     (if data = [] then Panic SliceBoundsOutOfRange else getNodeGUID_loop (butlast data) [] 0)"
  by (cases data rule: rev_cases) (simp_all add: getNodeGUID_def)

text \<open>
  C9. \<^verbatim>\<open>getNodeGUID\<close> parses the content of the file without its last byte,
  whatever that byte is; on an empty file the slice expression is out of bounds and
  the function panics: it returns neither bytes nor an error.
\<close>

theorem getNodeGUID_drops_last_byte:
  assumes "files w (node_guid_file dev) = Contents data"
  shows "(data = [] \<longrightarrow> getNodeGUID w dev = Panic SliceBoundsOutOfRange) \<and>
         (\<forall>d c. data = d @ [c] \<longrightarrow> getNodeGUID w dev = getNodeGUID_loop d [] 0)"
  using assms by (auto simp: getNodeGUID_def)

theorem getNodeGUID_drops_last_byte_witness:
  "getNodeGUID (with_guid []) ''mlx5_0'' = Panic SliceBoundsOutOfRange \<and>
   getNodeGUID (with_guid ''aa:bb1'') ''mlx5_0'' = getNodeGUID_loop ''aa:bb'' [] 0 \<and>
   getNodeGUID (with_guid (''aa:bb'' @ [newline])) ''mlx5_0'' = getNodeGUID_loop ''aa:bb'' [] 0 \<and>
   getNodeGUID_loop ''aa:bb'' [] 0 = Return ([0xaa, 0xbb], None)"
proof -
  have f: "files (with_guid data) (node_guid_file ''mlx5_0'') = Contents data" for data
    by (simp add: world_defs path_defs)
  have l: "getNodeGUID_loop ''aa:bb'' [] 0 = Return ([0xaa, 0xbb], None)"
    by (simp add: ParseUint_def nibbleBitSize_def)
  from getNodeGUID_drops_last_byte[OF f, of "[]"]
       getNodeGUID_drops_last_byte[OF f, of "''aa:bb1''"]
       getNodeGUID_drops_last_byte[OF f, of "''aa:bb'' @ [newline]"] l
  show ?thesis by simp
qed

subsection \<open>Two digits make one byte\<close>

lemma pair_step:
  assumes a: "ParseUint a = Inr n" and b: "ParseUint b = Inr m" and j: "j = 2 * length acc"
  shows "getNodeGUID_loop (a # b # rest) acc j =
         getNodeGUID_loop rest (acc @ [push_bit 4 (of_nat n) OR of_nat m]) (j + 2)"
proof -
  from a b have ne: "a \<noteq> CHR '':''" "b \<noteq> CHR '':''"
    using ParseUint_Inr by blast+
  have 1: "getNodeGUID_loop (a # b # rest) acc j =
           getNodeGUID_loop (b # rest) (acc @ [push_bit 4 (of_nat n)]) (j + 1)"
    using a ne j by (simp add: nibbleBitSize_def)
  have 2: "getNodeGUID_loop (b # rest) (acc @ [push_bit 4 (of_nat n)]) (j + 1) =
           getNodeGUID_loop rest (acc @ [push_bit 4 (of_nat n) OR of_nat m]) (j + 2)"
    using b ne j by simp
  from 1 2 show ?thesis by simp
qed

lemma encode_pair:
  assumes a: "ParseUint a = Inr n" and b: "ParseUint b = Inr m"
  shows "encode_byte (push_bit 4 (of_nat n) OR of_nat m) = [toLower a, toLower b]"
proof -
  from ParseUint_Inr[OF a] ParseUint_Inr[OF b]
  have n: "n < 16" "hexchar n = toLower a" and m: "m < 16" "hexchar m = toLower b"
    by simp_all
  show ?thesis
    unfolding encode_byte_def pack_hi[OF n(1) m(1)] pack_lo[OF n(1) m(1)] n(2) m(2) ..
qed

lemma well_formed_loop:
  "well_formed S \<Longrightarrow> j = 2 * length acc \<Longrightarrow>
   \<exists>bs. getNodeGUID_loop S acc j = Return (acc @ bs, None) \<and> bs \<noteq> [] \<and>
        3 * length bs = length S + 1 \<and> encode_guid bs = map toLower S"
proof (induction S arbitrary: acc j rule: well_formed.induct)
  case (1 a b)
  then obtain n m where nm: "ParseUint a = Inr n" "ParseUint b = Inr m"
    using is_hex_Inr by (metis well_formed.simps(1))
  show ?case
    using pair_step[OF nm "1.prems"(2), of "[]"] encode_pair[OF nm] by simp
next
  case (2 a b c rest)
  then obtain n m where nm: "ParseUint a = Inr n" "ParseUint b = Inr m"
    using is_hex_Inr by (metis well_formed.simps(2))
  from 2 have c: "c = CHR '':''" and wf: "well_formed rest" by simp_all
  let ?x = "push_bit 4 (of_nat n) OR of_nat m :: byte"
  have j': "j + 2 = 2 * length (acc @ [?x])" using "2.prems"(2) by simp
  from "2.IH"[OF wf j'] obtain bs where
    bs: "getNodeGUID_loop rest (acc @ [?x]) (j + 2) = Return ((acc @ [?x]) @ bs, None)"
      "bs \<noteq> []" "3 * length bs = length rest + 1" "encode_guid bs = map toLower rest"
    by blast
  have "getNodeGUID_loop (a # b # c # rest) acc j = Return (acc @ (?x # bs), None)"
    using pair_step[OF nm "2.prems"(2), of "c # rest"] bs(1) c by simp
  moreover have "encode_guid (?x # bs) = map toLower (a # b # c # rest)"
    using bs(2,4) encode_pair[OF nm] c toLower_colon by (cases bs) simp_all
  moreover have "3 * length (?x # bs) = length (a # b # c # rest) + 1"
    using bs(3) by simp
  ultimately show ?case by blast
qed simp_all

text \<open>
  C1. When the node GUID file holds a well-formed identifier of 23 characters followed
  by a newline, \<^verbatim>\<open>getNodeGUID\<close> returns exactly 8 bytes and no error, and writing
  the 8 bytes as lower-case two-digit hexadecimal separated by colons gives the
  identifier in lower case.
\<close>

theorem getNodeGUID_roundtrip:
  assumes "files w (node_guid_file dev) = Contents (S @ [newline])"
    and "well_formed S" and "length S = 23"
  shows "\<exists>bs. getNodeGUID w dev = Return (bs, None) \<and> length bs = 8 \<and>
              encode_guid bs = map toLower S"
proof -
  from well_formed_loop[OF assms(2), of 0 "[]"] obtain bs where
    bs: "getNodeGUID_loop S [] 0 = Return (bs, None)" "3 * length bs = length S + 1"
      "encode_guid bs = map toLower S"
    by auto
  have "getNodeGUID w dev = getNodeGUID_loop S [] 0"
    using getNodeGUID_Contents[OF assms(1)] by simp
  moreover have "length bs = 8" using bs(2) assms(3) by simp
  ultimately show ?thesis using bs(1,3) by simp
qed

theorem getNodeGUID_roundtrip_witness:
  "well_formed ''AA:bb:0C:dd:ee:ff:00:11'' \<and> length ''AA:bb:0C:dd:ee:ff:00:11'' = 23 \<and>
   (\<exists>bs. getNodeGUID sysfs_world ''mlx5_1'' = Return (bs, None) \<and> length bs = 8 \<and>
         encode_guid bs = ''aa:bb:0c:dd:ee:ff:00:11'')"
proof -
  have f: "files sysfs_world (node_guid_file ''mlx5_1'') =
           Contents (''AA:bb:0C:dd:ee:ff:00:11'' @ [newline])"
    by (simp add: world_defs path_defs)
  have wf: "well_formed ''AA:bb:0C:dd:ee:ff:00:11''"
    by (simp add: is_hex_def ParseUint_def)
  have len: "length ''AA:bb:0C:dd:ee:ff:00:11'' = 23" by simp
  have low: "map toLower ''AA:bb:0C:dd:ee:ff:00:11'' = ''aa:bb:0c:dd:ee:ff:00:11''"
    by code_simp
  from getNodeGUID_roundtrip[OF f wf len, unfolded low] wf len show ?thesis
    by (intro conjI)

qed

subsection \<open>What the loop answers on any input\<close>

lemma loop_bad_byte:
  "bad_byte b \<Longrightarrow>
   getNodeGUID_loop (b # data) acc j = Return ([], Some (NumError (byte_string b)))"
  by (auto simp: bad_byte_def is_hex_def split: sum.splits dest: ParseUint_Inl)

lemma loop_step:
  assumes "\<not> bad_byte b" and "length acc = (j + 1) div 2"
  shows "\<exists>acc'. getNodeGUID_loop (b # data) acc j =
                 getNodeGUID_loop data acc' (j + (if b = CHR '':'' then 0 else 1)) \<and>
               length acc' = (j + (if b = CHR '':'' then 0 else 1) + 1) div 2"
proof (cases "b = CHR '':''")
  case True
  then show ?thesis using assms(2) by auto
next
  case False
  with assms(1) obtain c where c: "ParseUint b = Inr c"
    by (auto simp: bad_byte_def is_hex_def split: sum.splits)
  show ?thesis
  proof (cases "j mod 2 = 0")
    case True
    have "length (acc @ [push_bit nibbleBitSize (of_nat c)]) = (j + 1 + 1) div 2"
      using assms(2) True by simp presburger
    then show ?thesis using False c True by auto
  next
    case odd: False
    have lt: "j div 2 < length acc" using assms(2) odd by presburger
    have "length (acc[j div 2 := (acc ! (j div 2)) OR of_nat c]) = (j + 1 + 1) div 2"
      using assms(2) odd by simp presburger
    then show ?thesis using False c odd lt by auto
  qed
qed

lemma loop_fails:
  "find bad_byte data = Some b \<Longrightarrow> length acc = (j + 1) div 2 \<Longrightarrow>
   getNodeGUID_loop data acc j = Return ([], Some (NumError (byte_string b)))"
proof (induction data arbitrary: acc j)
  case Nil
  then show ?case by simp
next
  case (Cons x data)
  show ?case
  proof (cases "bad_byte x")
    case True
    then show ?thesis using Cons.prems(1) loop_bad_byte by simp
  next
    case False
    from loop_step[OF False Cons.prems(2), of data] obtain acc' where
      "getNodeGUID_loop (x # data) acc j =
         getNodeGUID_loop data acc' (j + (if x = CHR '':'' then 0 else 1))"
      "length acc' = (j + (if x = CHR '':'' then 0 else 1) + 1) div 2"
      by blast
    moreover have "find bad_byte data = Some b" using Cons.prems(1) False by simp
    ultimately show ?thesis using Cons.IH by metis
  qed
qed

lemma loop_succeeds:
  "find bad_byte data = None \<Longrightarrow> length acc = (j + 1) div 2 \<Longrightarrow>
   \<exists>bs. getNodeGUID_loop data acc j = Return (bs, None) \<and>
        length bs = (j + length (filter (\<lambda>b. b \<noteq> CHR '':'') data) + 1) div 2"
proof (induction data arbitrary: acc j)
  case Nil
  then show ?case by simp
next
  case (Cons x data)
  from Cons.prems(1) have nb: "\<not> bad_byte x" and rest: "find bad_byte data = None"
    by (auto split: if_splits)
  from loop_step[OF nb Cons.prems(2), of data] obtain acc' where
    acc': "getNodeGUID_loop (x # data) acc j =
         getNodeGUID_loop data acc' (j + (if x = CHR '':'' then 0 else 1))"
      "length acc' = (j + (if x = CHR '':'' then 0 else 1) + 1) div 2"
    by blast
  from Cons.IH[OF rest acc'(2)] obtain bs where
    "getNodeGUID_loop data acc' (j + (if x = CHR '':'' then 0 else 1)) = Return (bs, None)"
    "length bs = (j + (if x = CHR '':'' then 0 else 1) +
        length (filter (\<lambda>b. b \<noteq> CHR '':'') data) + 1) div 2"
    by blast
  then show ?case using acc'(1) by (cases "x = CHR '':''") auto
qed

text \<open>
  C5, as stated, fails: four hexadecimal digits are parsed into two bytes and no error.
\<close>

theorem getNodeGUID_short_input_counterexample:
  "getNodeGUID (with_guid (''aa:bb'' @ [newline])) ''mlx5_0'' = Return ([0xaa, 0xbb], None)"
  by (simp add: getNodeGUID_def world_defs path_defs ParseUint_def nibbleBitSize_def)

text \<open>
  C5, amended. The last byte of the file is dropped. If a byte other than a colon and
  a hexadecimal digit is among the bytes before it, \<^verbatim>\<open>getNodeGUID\<close> returns no
  bytes and the syntax error of the first such byte, converted to a string. Otherwise it returns no error,
  whatever the number of digits: \<open>n\<close> digits give \<open>(n + 1) div 2\<close> bytes.
\<close>

theorem getNodeGUID_parse_result:
  assumes "files w (node_guid_file dev) = Contents (d @ [c])"
  shows "case find bad_byte d of
           Some b \<Rightarrow> getNodeGUID w dev = Return ([], Some (NumError (byte_string b)))
         | None \<Rightarrow> \<exists>bs. getNodeGUID w dev = Return (bs, None) \<and>
               length bs = (length (filter (\<lambda>b. b \<noteq> CHR '':'') d) + 1) div 2"
proof -
  have g: "getNodeGUID w dev = getNodeGUID_loop d [] 0"
    using getNodeGUID_Contents[OF assms] by simp
  show ?thesis
  proof (cases "find bad_byte d")
    case None
    from loop_succeeds[OF None, of "[]" 0] show ?thesis using g None by simp
  next
    case (Some b)
    from loop_fails[OF Some, of "[]" 0] show ?thesis using g Some by simp
  qed
qed

theorem getNodeGUID_parse_result_witness:
  "getNodeGUID (with_guid (''aa:zz:cc'' @ [newline])) ''mlx5_0'' =
     Return ([], Some (NumError ''z'')) \<and>
   (\<exists>bs. getNodeGUID (with_guid (''aa:bb:c'' @ [newline])) ''mlx5_0'' = Return (bs, None) \<and>
         length bs = 3)"
proof -
  have f: "files (with_guid (d @ [newline])) (node_guid_file ''mlx5_0'') =
           Contents (d @ [newline])" for d
    by (simp add: world_defs path_defs)
  have 1: "find bad_byte ''aa:zz:cc'' = Some (CHR ''z'')"
    by (simp add: bad_byte_def is_hex_def ParseUint_def)
  have 2: "find bad_byte ''aa:bb:c'' = None"
    by (simp add: bad_byte_def is_hex_def ParseUint_def)
  have 3: "(length (filter (\<lambda>b. b \<noteq> CHR '':'') ''aa:bb:c'') + 1) div 2 = 3"
    by simp
  have 4: "byte_string (CHR ''z'') = ''z''"
    by (simp add: byte_string_def)
  note a = getNodeGUID_parse_result[OF f, of "''aa:zz:cc''", unfolded 1 option.case 4]
  note b = getNodeGUID_parse_result[OF f, of "''aa:bb:c''", unfolded 2 option.case 3]
  from a b show ?thesis by (rule conjI)
qed

section \<open>Resolution of an Ethernet netdevice\<close>

lemma isNetdevForRdma_iff:
  "isNetdevForRdma w dev port index netdevName \<longleftrightarrow>
   (case files w (ndev_file dev port index) of
      Contents data \<Rightarrow> TrimSuffix_newline data = netdevName
    | _ \<Rightarrow> False)"
  by (simp add: isNetdevForRdma_def split: file_state.splits)

lemma indices_loop_iff:
  "getRdmaDeviceForEth_indices w dev port indices netdevName \<longleftrightarrow>
   (\<exists>index \<in> set indices. isNetdevForRdma w dev port index netdevName)"
  by (induction indices) auto

lemma ports_loop_iff:
  "getRdmaDeviceForEth_ports w dev ports netdevName \<longleftrightarrow>
   (\<exists>port \<in> set ports. \<exists>index \<in> set (getNetdeviceIds w dev port).
      isNetdevForRdma w dev port index netdevName)"
  by (induction ports) (auto simp: indices_loop_iff)

lemma ports_loop_attached:
  "getRdmaDeviceForEth_ports w dev (GetPorts w dev) netdevName \<longleftrightarrow> attached w dev netdevName"
  by (simp add: ports_loop_iff attached_def isNetdevForRdma_iff)

lemma devices_loop_skip:
  "\<forall>d \<in> set pre. \<not> attached w d netdevName \<Longrightarrow>
   getRdmaDeviceForEth_devices w (pre @ rest) netdevName =
   getRdmaDeviceForEth_devices w rest netdevName"
  by (induction pre) (simp_all add: ports_loop_attached)

lemma devices_loop_found:
  "getRdmaDeviceForEth_devices w devices netdevName = (D, None) \<Longrightarrow>
   \<exists>pre post. devices = pre @ D # post \<and> attached w D netdevName \<and>
     (\<forall>d \<in> set pre. \<not> attached w d netdevName)"
proof (induction devices)
  case Nil
  then show ?case by simp
next
  case (Cons dev devices)
  show ?case
  proof (cases "attached w dev netdevName")
    case True
    with Cons.prems have "D = dev" by (simp add: ports_loop_attached)
    with True have "dev # devices = [] @ D # devices \<and> attached w D netdevName \<and>
      (\<forall>d \<in> set []. \<not> attached w d netdevName)" by simp
    then show ?thesis by blast
  next
    case False
    with Cons.prems have "getRdmaDeviceForEth_devices w devices netdevName = (D, None)"
      by (simp add: ports_loop_attached)
    from Cons.IH[OF this] obtain pre post where
      "devices = pre @ D # post" "attached w D netdevName"
      "\<forall>d \<in> set pre. \<not> attached w d netdevName" by blast
    with False have "dev # devices = (dev # pre) @ D # post \<and> attached w D netdevName \<and>
      (\<forall>d \<in> set (dev # pre). \<not> attached w d netdevName)" by simp
    then show ?thesis by blast
  qed
qed

lemma devices_loop_not_found:
  "getRdmaDeviceForEth_devices w devices netdevName = ([], Some (ErrNotFoundForNetdev netdevName))
   \<longleftrightarrow> (\<forall>d \<in> set devices. \<not> attached w d netdevName)"
  by (induction devices) (simp_all add: ports_loop_attached)

lemma devices_loop_error:
  "getRdmaDeviceForEth_devices w devices netdevName = (D, Some e) \<Longrightarrow>
   D = [] \<and> e = ErrNotFoundForNetdev netdevName"
  by (induction devices) (auto simp: ports_loop_attached split: if_splits)

text \<open>
  C2. \<^verbatim>\<open>getRdmaDeviceForEth\<close> returns the device \<open>D\<close> (and no error) exactly when
  \<open>D\<close> is the first device of the listing that has a port with an index file whose
  content, one trailing newline trimmed, is the name; it returns the not-found error
  exactly when no device of the listing has one; and it never returns an error together
  with a device.
\<close>

theorem getRdmaDeviceForEth_first_match:
  "(getRdmaDeviceForEth w netdevName = (D, None) \<longleftrightarrow>
      (\<exists>pre post. GetRdmaDeviceList w = pre @ D # post \<and> attached w D netdevName \<and>
         (\<forall>d \<in> set pre. \<not> attached w d netdevName))) \<and>
   (getRdmaDeviceForEth w netdevName = ([], Some (ErrNotFoundForNetdev netdevName)) \<longleftrightarrow>
      (\<forall>d \<in> set (GetRdmaDeviceList w). \<not> attached w d netdevName)) \<and>
   (\<forall>r e. getRdmaDeviceForEth w netdevName = (r, Some e) \<longrightarrow>
      r = [] \<and> e = ErrNotFoundForNetdev netdevName)"
proof (intro conjI)
  show "getRdmaDeviceForEth w netdevName = (D, None) \<longleftrightarrow>
      (\<exists>pre post. GetRdmaDeviceList w = pre @ D # post \<and> attached w D netdevName \<and>
         (\<forall>d \<in> set pre. \<not> attached w d netdevName))"
  proof
    assume "getRdmaDeviceForEth w netdevName = (D, None)"
    then show "\<exists>pre post. GetRdmaDeviceList w = pre @ D # post \<and> attached w D netdevName \<and>
         (\<forall>d \<in> set pre. \<not> attached w d netdevName)"
      using devices_loop_found by (simp add: getRdmaDeviceForEth_def)
  next
    assume "\<exists>pre post. GetRdmaDeviceList w = pre @ D # post \<and> attached w D netdevName \<and>
         (\<forall>d \<in> set pre. \<not> attached w d netdevName)"
    then obtain pre post where l: "GetRdmaDeviceList w = pre @ D # post"
      and a: "attached w D netdevName" and p: "\<forall>d \<in> set pre. \<not> attached w d netdevName"
      by blast
    show "getRdmaDeviceForEth w netdevName = (D, None)"
      using a by (simp add: getRdmaDeviceForEth_def l devices_loop_skip[OF p] ports_loop_attached)
  qed
next
  show "getRdmaDeviceForEth w netdevName = ([], Some (ErrNotFoundForNetdev netdevName)) \<longleftrightarrow>
      (\<forall>d \<in> set (GetRdmaDeviceList w). \<not> attached w d netdevName)"
    by (simp add: getRdmaDeviceForEth_def devices_loop_not_found)
next
  show "\<forall>r e. getRdmaDeviceForEth w netdevName = (r, Some e) \<longrightarrow>
      r = [] \<and> e = ErrNotFoundForNetdev netdevName"
    using devices_loop_error by (simp add: getRdmaDeviceForEth_def)
qed

lemma sysfs_devices: "GetRdmaDeviceList sysfs_world = [''mlx5_0'', ''mlx5_1'']"
  by (simp add: GetRdmaDeviceList_def world_defs path_defs)

lemma sysfs_attached:
  "attached sysfs_world ''mlx5_0'' ''eth0''" "\<not> attached sysfs_world ''mlx5_0'' ''ib0''"
  "attached sysfs_world ''mlx5_1'' ''ib0''" "\<not> attached sysfs_world ''mlx5_0'' ''eth1''"
  "\<not> attached sysfs_world ''mlx5_1'' ''eth1''"
  by (simp_all add: attached_def GetPorts_def getNetdeviceIds_def TrimSuffix_newline_def
      newline_def world_defs path_defs)

theorem getRdmaDeviceForEth_first_match_witness:
  "getRdmaDeviceForEth sysfs_world ''eth0'' = (''mlx5_0'', None) \<and>
   getRdmaDeviceForEth sysfs_world ''ib0'' = (''mlx5_1'', None) \<and>
   getRdmaDeviceForEth sysfs_world ''eth1'' = ([], Some (ErrNotFoundForNetdev ''eth1''))"
proof (intro conjI)
  have "GetRdmaDeviceList sysfs_world = [] @ ''mlx5_0'' # [''mlx5_1''] \<and>
        attached sysfs_world ''mlx5_0'' ''eth0'' \<and>
        (\<forall>d \<in> set []. \<not> attached sysfs_world d ''eth0'')"
    using sysfs_devices sysfs_attached by simp
  then show "getRdmaDeviceForEth sysfs_world ''eth0'' = (''mlx5_0'', None)"
    using getRdmaDeviceForEth_first_match[of sysfs_world "''eth0''" "''mlx5_0''"] by blast
next
  have "GetRdmaDeviceList sysfs_world = [''mlx5_0''] @ ''mlx5_1'' # [] \<and>
        attached sysfs_world ''mlx5_1'' ''ib0'' \<and>
        (\<forall>d \<in> set [''mlx5_0'']. \<not> attached sysfs_world d ''ib0'')"
    using sysfs_devices sysfs_attached by simp
  then show "getRdmaDeviceForEth sysfs_world ''ib0'' = (''mlx5_1'', None)"
    using getRdmaDeviceForEth_first_match[of sysfs_world "''ib0''" "''mlx5_1''"] by blast
next
  have "\<forall>d \<in> set (GetRdmaDeviceList sysfs_world). \<not> attached sysfs_world d ''eth1''"
    using sysfs_devices sysfs_attached by simp
  then show "getRdmaDeviceForEth sysfs_world ''eth1'' = ([], Some (ErrNotFoundForNetdev ''eth1''))"
    using getRdmaDeviceForEth_first_match[of sysfs_world "''eth1''"] by blast
qed

section \<open>Resolution of an InfiniBand netdevice\<close>

text \<open>
  C4, as stated, fails: of an address of 21 bytes the nine bytes from offset 12 on are
  taken, which is not its last eight.
\<close>

theorem lleui64_longer_address_counterexample:
  "20 \<le> length (ib0_addr @ [0x99]) \<and>
   lleui64 (ib0_addr @ [0x99]) = Return [0xaa, 0xbb, 0x0c, 0xdd, 0xee, 0xff, 0x00, 0x11, 0x99] \<and>
   lleui64 (ib0_addr @ [0x99]) \<noteq> Return (last_bytes 8 (ib0_addr @ [0x99]))"
  by (simp add: lleui64_def last_bytes_def ib0_addr_def)

text \<open>
  C4, amended. Of a hardware address of at least 12 bytes the bytes from offset 12 on
  are taken; they are the last 8 bytes of the address exactly when it has 20 bytes.
\<close>

theorem lleui64_offset_12:
  assumes "12 \<le> length hardwareAddr"
  shows "lleui64 hardwareAddr = Return (drop 12 hardwareAddr) \<and>
         (lleui64 hardwareAddr = Return (last_bytes 8 hardwareAddr) \<longleftrightarrow>
            length hardwareAddr = 20)"
proof -
  have 1: "lleui64 hardwareAddr = Return (drop 12 hardwareAddr)"
    using assms by (simp add: lleui64_def)
  have 2: "drop 12 hardwareAddr = last_bytes 8 hardwareAddr \<longleftrightarrow> length hardwareAddr = 20"
  proof
    assume "drop 12 hardwareAddr = last_bytes 8 hardwareAddr"
    then have "length (drop 12 hardwareAddr) = length (last_bytes 8 hardwareAddr)" by simp
    then show "length hardwareAddr = 20" using assms by (simp add: last_bytes_def)
  next
    assume "length hardwareAddr = 20"
    then show "drop 12 hardwareAddr = last_bytes 8 hardwareAddr" by (simp add: last_bytes_def)
  qed
  from 1 2 show ?thesis by simp
qed

theorem lleui64_offset_12_witness:
  "12 \<le> length ib0_addr \<and>
   lleui64 ib0_addr = Return [0xaa, 0xbb, 0x0c, 0xdd, 0xee, 0xff, 0x00, 0x11] \<and>
   lleui64 ib0_addr = Return (last_bytes 8 ib0_addr)"
proof -
  have h: "12 \<le> length ib0_addr" by (simp add: ib0_addr_def)
  have l: "length ib0_addr = 20" by (simp add: ib0_addr_def)
  have d: "drop 12 ib0_addr = [0xaa, 0xbb, 0x0c, 0xdd, 0xee, 0xff, 0x00, 0x11]"
    by (simp add: ib0_addr_def)
  from lleui64_offset_12[OF h] h l d show ?thesis by auto
qed

lemma ib_loop_skip:
  "\<forall>d \<in> set pre. passed_over w eui d \<Longrightarrow>
   getRdmaDeviceForIb_loop w eui (pre @ rest) = getRdmaDeviceForIb_loop w eui rest"
proof (induction pre)
  case Nil
  then show ?case by simp
next
  case (Cons dev pre)
  from Cons.prems have "passed_over w eui dev" by simp
  then obtain g where "getNodeGUID w dev = Return (g, None)" "g \<noteq> eui"
    by (auto simp: passed_over_def split: outcome.splits option.splits)
  with Cons show ?case by auto
qed

text \<open>
  C3, as stated, fails: with a hardware address of 6 bytes and no RDMA device at all,
  so that no device matches, the slice expression panics and nothing is returned.
\<close>

theorem getRdmaDeviceForIb_short_address_counterexample:
  "GetRdmaDeviceList no_world = [] \<and>
   getRdmaDeviceForIb no_world \<lparr>EncapType = ''infiniband'', HardwareAddr = eth0_addr\<rparr> =
     Panic SliceBoundsOutOfRange"
  by (simp add: getRdmaDeviceForIb_def lleui64_def eth0_addr_def GetRdmaDeviceList_def
      no_world_def)

text \<open>
  C3, amended. For a hardware address of at least 12 bytes, let \<open>eui\<close> be its bytes from
  offset 12 on. If the devices before \<open>D\<close> in the listing all have a node GUID that is
  read and parsed without error and differs from \<open>eui\<close>, then: when the node GUID of
  \<open>D\<close> is \<open>eui\<close>, \<open>D\<close> is returned with no error; when reading or parsing the node GUID
  of \<open>D\<close> returns an error, the empty name and that error are returned, whatever the
  devices after \<open>D\<close> are. If every device of the listing has a node GUID that differs
  from \<open>eui\<close>, the empty name is returned with no error.
\<close>

theorem getRdmaDeviceForIb_scan:
  assumes "12 \<le> length (HardwareAddr linkAttr)"
  shows "(\<forall>pre D post. GetRdmaDeviceList w = pre @ D # post \<and>
            (\<forall>d \<in> set pre. passed_over w (drop 12 (HardwareAddr linkAttr)) d) \<and>
            getNodeGUID w D = Return (drop 12 (HardwareAddr linkAttr), None) \<longrightarrow>
            getRdmaDeviceForIb w linkAttr = Return (D, None)) \<and>
         (\<forall>pre D post g e. GetRdmaDeviceList w = pre @ D # post \<and>
            (\<forall>d \<in> set pre. passed_over w (drop 12 (HardwareAddr linkAttr)) d) \<and>
            getNodeGUID w D = Return (g, Some e) \<longrightarrow>
            getRdmaDeviceForIb w linkAttr = Return ([], Some e)) \<and>
         ((\<forall>d \<in> set (GetRdmaDeviceList w). passed_over w (drop 12 (HardwareAddr linkAttr)) d) \<longrightarrow>
            getRdmaDeviceForIb w linkAttr = Return ([], None))"
proof -
  let ?eui = "drop 12 (HardwareAddr linkAttr)"
  have unfold: "getRdmaDeviceForIb w linkAttr =
                getRdmaDeviceForIb_loop w ?eui (GetRdmaDeviceList w)"
    using assms by (simp add: getRdmaDeviceForIb_def lleui64_def)
  have a: "getRdmaDeviceForIb w linkAttr = Return (D, None)"
    if "GetRdmaDeviceList w = pre @ D # post" "\<forall>d \<in> set pre. passed_over w ?eui d"
      "getNodeGUID w D = Return (?eui, None)" for pre D post
    using that by (simp add: unfold ib_loop_skip)
  have b: "getRdmaDeviceForIb w linkAttr = Return ([], Some e)"
    if "GetRdmaDeviceList w = pre @ D # post" "\<forall>d \<in> set pre. passed_over w ?eui d"
      "getNodeGUID w D = Return (g, Some e)" for pre D post g e
    using that by (simp add: unfold ib_loop_skip)
  have c: "getRdmaDeviceForIb w linkAttr = Return ([], None)"
    if "\<forall>d \<in> set (GetRdmaDeviceList w). passed_over w ?eui d"
    using ib_loop_skip[OF that, of "[]"] by (simp add: unfold)
  from a b c show ?thesis by blast
qed

lemma with_guid_devices: "GetRdmaDeviceList (with_guid data) = [''mlx5_0'', ''mlx5_1'']"
  by (simp add: GetRdmaDeviceList_def world_defs path_defs)

lemma mlx5_guids:
  "getNodeGUID sysfs_world ''mlx5_0'' = Return ([0x00, 0x02, 0xc9, 0x03, 0x00, 0x33, 0x1a, 0x84], None)"
  "getNodeGUID sysfs_world ''mlx5_1'' = Return ([0xaa, 0xbb, 0x0c, 0xdd, 0xee, 0xff, 0x00, 0x11], None)"
  "getNodeGUID (with_guid ''zz'') ''mlx5_0'' = Return ([], Some (NumError ''z''))"
  by (simp_all add: getNodeGUID_def ParseUint_def byte_string_def nibbleBitSize_def
      newline_def world_defs path_defs)

theorem getRdmaDeviceForIb_scan_witness:
  "12 \<le> length ib0_addr \<and>
   getRdmaDeviceForIb sysfs_world \<lparr>EncapType = ''infiniband'', HardwareAddr = ib0_addr\<rparr> =
     Return (''mlx5_1'', None) \<and>
   getRdmaDeviceForIb (with_guid ''zz'') \<lparr>EncapType = ''infiniband'', HardwareAddr = ib0_addr\<rparr> =
     Return ([], Some (NumError ''z'')) \<and>
   getRdmaDeviceForIb sysfs_world
     \<lparr>EncapType = ''infiniband'', HardwareAddr = replicate 12 0 @ [1, 2, 3, 4, 5, 6, 7, 8]\<rparr> =
     Return ([], None)"
proof (intro conjI)
  let ?ib0 = "\<lparr>EncapType = ''infiniband'', HardwareAddr = ib0_addr\<rparr>"
  let ?other = "\<lparr>EncapType = ''infiniband'',
                 HardwareAddr = replicate 12 0 @ [1, 2, 3, 4, 5, 6, 7, 8 :: byte]\<rparr>"
  show h: "12 \<le> length ib0_addr" by (simp add: ib0_addr_def)
  have h1: "12 \<le> length (HardwareAddr ?ib0)" using h by simp
  have h2: "12 \<le> length (HardwareAddr ?other)" by simp
  have d: "drop 12 (HardwareAddr ?ib0) = [0xaa, 0xbb, 0x0c, 0xdd, 0xee, 0xff, 0x00, 0x11]"
    by (simp add: ib0_addr_def)
  have d2: "drop 12 (HardwareAddr ?other) = [1, 2, 3, 4, 5, 6, 7, 8]" by simp
  have "GetRdmaDeviceList sysfs_world = [''mlx5_0''] @ ''mlx5_1'' # [] \<and>
        (\<forall>d \<in> set [''mlx5_0'']. passed_over sysfs_world (drop 12 (HardwareAddr ?ib0)) d) \<and>
        getNodeGUID sysfs_world ''mlx5_1'' = Return (drop 12 (HardwareAddr ?ib0), None)"
    unfolding d using sysfs_devices mlx5_guids by (simp add: passed_over_def)
  then show "getRdmaDeviceForIb sysfs_world ?ib0 = Return (''mlx5_1'', None)"
    using getRdmaDeviceForIb_scan[OF h1, of sysfs_world] by blast
  have "GetRdmaDeviceList (with_guid ''zz'') = [] @ ''mlx5_0'' # [''mlx5_1''] \<and>
        (\<forall>d \<in> set []. passed_over (with_guid ''zz'') (drop 12 (HardwareAddr ?ib0)) d) \<and>
        getNodeGUID (with_guid ''zz'') ''mlx5_0'' = Return ([], Some (NumError ''z''))"
    using with_guid_devices mlx5_guids by simp
  then show "getRdmaDeviceForIb (with_guid ''zz'') ?ib0 = Return ([], Some (NumError ''z''))"
    using getRdmaDeviceForIb_scan[OF h1, of "with_guid ''zz''"] by blast
  have "\<forall>d \<in> set (GetRdmaDeviceList sysfs_world).
          passed_over sysfs_world (drop 12 (HardwareAddr ?other)) d"
    unfolding d2 using sysfs_devices mlx5_guids by (simp add: passed_over_def)
  then show "getRdmaDeviceForIb sysfs_world ?other = Return ([], None)"
    using getRdmaDeviceForIb_scan[OF h2, of sysfs_world] by blast
qed

section \<open>Resolution of any netdevice\<close>

text \<open>
  C6. A failed lookup of the link is returned as it is. A link whose encapsulation is
  \<open>ether\<close> gets the answer of \<^verbatim>\<open>getRdmaDeviceForEth\<close>, one whose encapsulation is
  \<open>infiniband\<close> the answer of \<^verbatim>\<open>getRdmaDeviceForIb\<close>. For any other encapsulation
  the answer is the unknown-device-type error, whatever the directories, the files and
  \<^verbatim>\<open>os.Stat\<close> would answer: nothing of the file system enters the result.
\<close>

theorem GetRdmaDeviceForNetdevice_dispatch:
  "(\<forall>err. LinkByName w netdevName = Inl err \<longrightarrow>
      GetRdmaDeviceForNetdevice w netdevName = Return ([], Some err)) \<and>
   (\<forall>netAttr. LinkByName w netdevName = Inr netAttr \<longrightarrow>
      (EncapType netAttr = ''ether'' \<longrightarrow>
         GetRdmaDeviceForNetdevice w netdevName = Return (getRdmaDeviceForEth w netdevName)) \<and>
      (EncapType netAttr = ''infiniband'' \<longrightarrow>
         GetRdmaDeviceForNetdevice w netdevName = getRdmaDeviceForIb w netAttr) \<and>
      (EncapType netAttr \<noteq> ''ether'' \<and> EncapType netAttr \<noteq> ''infiniband'' \<longrightarrow>
         (\<forall>ds fs st. GetRdmaDeviceForNetdevice (w\<lparr>dirs := ds, files := fs, stat := st\<rparr>) netdevName =
            Return ([], Some ErrUnknownDeviceType))))"
  by (simp add: GetRdmaDeviceForNetdevice_def)

lemma sysfs_link_answers:
  "LinkByName sysfs_world ''eth0'' = Inr \<lparr>EncapType = ''ether'', HardwareAddr = eth0_addr\<rparr>"
  "LinkByName sysfs_world ''ib0'' = Inr \<lparr>EncapType = ''infiniband'', HardwareAddr = ib0_addr\<rparr>"
  "LinkByName sysfs_world ''lo'' = Inr \<lparr>EncapType = ''loopback'', HardwareAddr = []\<rparr>"
  "LinkByName sysfs_world ''wlan0'' = Inl (LinkError ''Link not found'')"
  by (simp_all add: world_defs)

theorem GetRdmaDeviceForNetdevice_dispatch_witness:
  "GetRdmaDeviceForNetdevice sysfs_world ''wlan0'' = Return ([], Some (LinkError ''Link not found'')) \<and>
   GetRdmaDeviceForNetdevice sysfs_world ''eth0'' =
     Return (getRdmaDeviceForEth sysfs_world ''eth0'') \<and>
   GetRdmaDeviceForNetdevice sysfs_world ''ib0'' =
     getRdmaDeviceForIb sysfs_world \<lparr>EncapType = ''infiniband'', HardwareAddr = ib0_addr\<rparr> \<and>
   GetRdmaDeviceForNetdevice
     (sysfs_world\<lparr>dirs := dirs no_world, files := files no_world, stat := stat no_world\<rparr>) ''lo'' =
     Return ([], Some ErrUnknownDeviceType)"
  using GetRdmaDeviceForNetdevice_dispatch[of sysfs_world "''wlan0''"]
    GetRdmaDeviceForNetdevice_dispatch[of sysfs_world "''eth0''"]
    GetRdmaDeviceForNetdevice_dispatch[of sysfs_world "''ib0''"]
    GetRdmaDeviceForNetdevice_dispatch[of sysfs_world "''lo''"]
  by (simp add: sysfs_link_answers)

lemma ib_loop_error:
  "getRdmaDeviceForIb_loop w eui devices = Return (r, Some e) \<Longrightarrow> r = []"
  by (induction devices) (auto split: outcome.splits option.splits if_splits)

lemma GetRdmaDeviceForNetdevice_error:
  assumes "GetRdmaDeviceForNetdevice w netdevName = Return (r, Some e)"
  shows "r = []"
proof (cases "LinkByName w netdevName")
  case (Inl err)
  with assms show ?thesis by (simp add: GetRdmaDeviceForNetdevice_def)
next
  case (Inr netAttr)
  consider "EncapType netAttr = ''ether''"
    | "EncapType netAttr \<noteq> ''ether''" "EncapType netAttr = ''infiniband''"
    | "EncapType netAttr \<noteq> ''ether''" "EncapType netAttr \<noteq> ''infiniband''"
    by blast
  then show ?thesis
  proof cases
    case 1
    with assms Inr have "getRdmaDeviceForEth_devices w (GetRdmaDeviceList w) netdevName = (r, Some e)"
      by (simp add: GetRdmaDeviceForNetdevice_def getRdmaDeviceForEth_def)
    then show ?thesis using devices_loop_error by blast
  next
    case 2
    with assms Inr have "getRdmaDeviceForIb w netAttr = Return (r, Some e)"
      by (simp add: GetRdmaDeviceForNetdevice_def)
    then show ?thesis
      using ib_loop_error
      by (auto simp: getRdmaDeviceForIb_def split: outcome.splits)
  next
    case 3
    with assms Inr show ?thesis by (simp add: GetRdmaDeviceForNetdevice_def)
  qed
qed

text \<open>
  C8. \<^verbatim>\<open>IsRDmaDeviceForNetdevice\<close> returns true exactly when the resolution returns a
  non-empty device name and no error; whenever the resolution returns an error, it
  returns false and the error is gone.
\<close>

theorem IsRDmaDeviceForNetdevice_iff:
  "(IsRDmaDeviceForNetdevice w netdevName = Return True \<longleftrightarrow>
      (\<exists>rdma. GetRdmaDeviceForNetdevice w netdevName = Return (rdma, None) \<and> rdma \<noteq> [])) \<and>
   (\<forall>rdma e. GetRdmaDeviceForNetdevice w netdevName = Return (rdma, Some e) \<longrightarrow>
      IsRDmaDeviceForNetdevice w netdevName = Return False)"
proof (intro conjI allI impI)
  show "IsRDmaDeviceForNetdevice w netdevName = Return True \<longleftrightarrow>
      (\<exists>rdma. GetRdmaDeviceForNetdevice w netdevName = Return (rdma, None) \<and> rdma \<noteq> [])"
  proof
    assume t: "IsRDmaDeviceForNetdevice w netdevName = Return True"
    then obtain rdma err where r: "GetRdmaDeviceForNetdevice w netdevName = Return (rdma, err)"
      and ne: "rdma \<noteq> []"
      by (auto simp: IsRDmaDeviceForNetdevice_def split: outcome.splits)
    have "err = None"
    proof (cases err)
      case None
      then show ?thesis .
    next
      case (Some e)
      with r ne GetRdmaDeviceForNetdevice_error show ?thesis by blast
    qed
    with r ne show "\<exists>rdma. GetRdmaDeviceForNetdevice w netdevName = Return (rdma, None) \<and> rdma \<noteq> []"
      by blast
  next
    assume "\<exists>rdma. GetRdmaDeviceForNetdevice w netdevName = Return (rdma, None) \<and> rdma \<noteq> []"
    then show "IsRDmaDeviceForNetdevice w netdevName = Return True"
      by (auto simp: IsRDmaDeviceForNetdevice_def)
  qed
next
  fix rdma e
  assume r: "GetRdmaDeviceForNetdevice w netdevName = Return (rdma, Some e)"
  from GetRdmaDeviceForNetdevice_error[OF r] r
  show "IsRDmaDeviceForNetdevice w netdevName = Return False"
    by (simp add: IsRDmaDeviceForNetdevice_def)
qed

theorem IsRDmaDeviceForNetdevice_iff_witness:
  "IsRDmaDeviceForNetdevice sysfs_world ''eth0'' = Return True \<and>
   IsRDmaDeviceForNetdevice sysfs_world ''lo'' = Return False \<and>
   IsRDmaDeviceForNetdevice sysfs_world ''wlan0'' = Return False"
proof (intro conjI)
  have "GetRdmaDeviceForNetdevice sysfs_world ''eth0'' = Return (''mlx5_0'', None)"
    using sysfs_link_answers(1)
    by (simp add: GetRdmaDeviceForNetdevice_def getRdmaDeviceForEth_def sysfs_devices
        ports_loop_attached sysfs_attached)
  then show "IsRDmaDeviceForNetdevice sysfs_world ''eth0'' = Return True"
    using IsRDmaDeviceForNetdevice_iff[of sysfs_world "''eth0''"] by simp
next
  have "GetRdmaDeviceForNetdevice sysfs_world ''lo'' = Return ([], Some ErrUnknownDeviceType)"
    using sysfs_link_answers(3) by (simp add: GetRdmaDeviceForNetdevice_def)
  then show "IsRDmaDeviceForNetdevice sysfs_world ''lo'' = Return False"
    using IsRDmaDeviceForNetdevice_iff[of sysfs_world "''lo''"] by blast
next
  have "GetRdmaDeviceForNetdevice sysfs_world ''wlan0'' =
        Return ([], Some (LinkError ''Link not found''))"
    using sysfs_link_answers(4) by (simp add: GetRdmaDeviceForNetdevice_def)
  then show "IsRDmaDeviceForNetdevice sysfs_world ''wlan0'' = Return False"
    using IsRDmaDeviceForNetdevice_iff[of sysfs_world "''wlan0''"] by blast
qed

section \<open>Character devices\<close>

lemma append_if_ok_simps:
  "append_if_ok xs (dev, None) = xs @ [dev]"
  "append_if_ok xs (dev, Some e) = xs"
  by (simp_all add: append_if_ok_def)

lemma set_append_if_ok: "set xs \<subseteq> set (append_if_ok xs r)"
  by (cases r) (auto simp: append_if_ok_def)

lemma getCharDevice_unlistable:
  "dirs w classDir = ReaddirFails err \<Longrightarrow>
   getCharDevice w rdmaDeviceName classDir charDevPrefix = ([], None)"
  by (simp add: getCharDevice_def)

text \<open>
  C10. When a class directory opens but its entries cannot be read,
  \<^verbatim>\<open>getCharDevice\<close> returns the empty path and no error; so when this happens to one
  of the three class directories, the empty string is an element of the list that
  \<^verbatim>\<open>GetRdmaCharDevices\<close> returns.
\<close>

theorem GetRdmaCharDevices_empty_path:
  "(\<forall>classDir charDevPrefix. dirs w classDir = ReaddirFails err \<longrightarrow>
      getCharDevice w rdmaDeviceName classDir charDevPrefix = ([], None)) \<and>
   (dirs w RdmaIbUcmDir = ReaddirFails err \<or> dirs w RdmaUmadDir = ReaddirFails err \<or>
    dirs w RdmaUverbsDir = ReaddirFails err \<longrightarrow>
      [] \<in> set (GetRdmaCharDevices w rdmaDeviceName))"
proof (intro conjI allI impI)
  fix classDir charDevPrefix
  assume "dirs w classDir = ReaddirFails err"
  then show "getCharDevice w rdmaDeviceName classDir charDevPrefix = ([], None)"
    by (rule getCharDevice_unlistable)
next
  let ?a = "append_if_ok [] (getUcmDevice w rdmaDeviceName)"
  let ?b = "append_if_ok ?a (getIssmDevice w rdmaDeviceName)"
  let ?c = "append_if_ok ?b (getUmadDevice w rdmaDeviceName)"
  let ?d = "append_if_ok ?c (getUverbDevice w rdmaDeviceName)"
  let ?e = "append_if_ok ?d (getRdmaUcmDevice w)"
  have res: "GetRdmaCharDevices w rdmaDeviceName = ?e"
    by (simp add: GetRdmaCharDevices_def)
  have sub: "set ?a \<subseteq> set ?b" "set ?b \<subseteq> set ?c" "set ?c \<subseteq> set ?d" "set ?d \<subseteq> set ?e"
    by (rule set_append_if_ok)+
  assume "dirs w RdmaIbUcmDir = ReaddirFails err \<or> dirs w RdmaUmadDir = ReaddirFails err \<or>
    dirs w RdmaUverbsDir = ReaddirFails err"
  then consider (ucm) "dirs w RdmaIbUcmDir = ReaddirFails err"
    | (umad) "dirs w RdmaUmadDir = ReaddirFails err"
    | (uverbs) "dirs w RdmaUverbsDir = ReaddirFails err"
    by blast
  then have "[] \<in> set ?d"
  proof cases
    case ucm
    then have "[] \<in> set ?a"
      by (simp add: getUcmDevice_def getCharDevice_unlistable append_if_ok_simps)
    with sub show ?thesis by blast
  next
    case umad
    then have "[] \<in> set ?b"
      by (simp add: getIssmDevice_def getCharDevice_unlistable append_if_ok_simps)
    with sub show ?thesis by blast
  next
    case uverbs
    then show ?thesis
      by (simp add: getUverbDevice_def getCharDevice_unlistable append_if_ok_simps)
  qed
  with sub res show "[] \<in> set (GetRdmaCharDevices w rdmaDeviceName)" by auto
qed

lemma unlistable_cm: "dirs unlistable_cm_world RdmaIbUcmDir = ReaddirFails ENOTDIR"
  by (simp add: world_defs path_defs)

theorem GetRdmaCharDevices_empty_path_witness:
  "getCharDevice unlistable_cm_world ''mlx5_0'' RdmaIbUcmDir RdmaUcmFilePrefix = ([], None) \<and>
   [] \<in> set (GetRdmaCharDevices unlistable_cm_world ''mlx5_0'')"
  using GetRdmaCharDevices_empty_path[of unlistable_cm_world ENOTDIR "''mlx5_0''"] unlistable_cm
  by blast

text \<open>
  C7 fails on the code. Where \<open>/sys/class/infiniband_cm\<close> opens but cannot be listed,
  the list returned for \<open>mlx5_1\<close>, a device without any character device, begins
  with the empty string: an entry for the ucm role that is no path and that no
  \<open>ibdev\<close> file naming \<open>mlx5_1\<close> stands behind.
\<close>

theorem GetRdmaCharDevices_unlistable_cm:
  "GetRdmaCharDevices unlistable_cm_world ''mlx5_1'' = [[], ''/dev/infiniband/rdma_cm'']"
  by (simp add: GetRdmaCharDevices_def append_if_ok_def getUcmDevice_def getIssmDevice_def
      getUmadDevice_def getUverbDevice_def getRdmaUcmDevice_def getCharDevice_def
      isDirForRdmaDevice_def Trim_newlines_def newline_def world_defs path_defs)

text \<open>
  What holds of the four roles where the class directories can be listed: a path
  returned for a role is \<open>/dev/infiniband/\<close> followed by the name of an entry of the
  class directory that contains the prefix of the role and whose \<open>ibdev\<close> file, newlines
  trimmed, holds the name of the device. The list has at most five elements.
\<close>

lemma getCharDevice_loop_backref:
  "getCharDevice_loop w rdmaDeviceName classDir charDevPrefix fileInfos = (path, None) \<Longrightarrow>
   \<exists>fi \<in> set fileInfos. path = Join [''/dev/infiniband'', Name fi] \<and>
      Contains (Name fi) charDevPrefix \<and>
      (\<exists>data. files w (Join [Join [classDir, Name fi], ''ibdev'']) = Contents data \<and>
         Trim_newlines data = rdmaDeviceName)"
proof (induction fileInfos)
  case Nil
  then show ?case by simp
next
  case (Cons fi fileInfos)
  show ?case
  proof (cases "getCharDevice_loop w rdmaDeviceName classDir charDevPrefix (fi # fileInfos) =
                getCharDevice_loop w rdmaDeviceName classDir charDevPrefix fileInfos")
    case True
    with Cons show ?thesis by auto
  next
    case False
    then have c: "Contains (Name fi) charDevPrefix"
      and d: "isDirForRdmaDevice w rdmaDeviceName (Join [classDir, Name fi])"
      and p: "getCharDevice_loop w rdmaDeviceName classDir charDevPrefix (fi # fileInfos) =
              (Join [''/dev/infiniband'', Name fi], None)"
      by (auto simp: Let_def split: if_splits)
    from d have "\<exists>data. files w (Join [Join [classDir, Name fi], ''ibdev'']) = Contents data \<and>
         Trim_newlines data = rdmaDeviceName"
      by (auto simp: isDirForRdmaDevice_def Let_def split: file_state.splits)
    with c p Cons.prems show ?thesis by auto
  qed
qed

lemma getCharDevice_backref:
  assumes "getCharDevice w rdmaDeviceName classDir charDevPrefix = (path, None)"
    and "\<forall>err. dirs w classDir \<noteq> ReaddirFails err"
  shows "\<exists>fileInfos. dirs w classDir = Entries fileInfos \<and>
     (\<exists>fi \<in> set fileInfos. path = Join [''/dev/infiniband'', Name fi] \<and>
        Contains (Name fi) charDevPrefix \<and>
        (\<exists>data. files w (Join [Join [classDir, Name fi], ''ibdev'']) = Contents data \<and>
           Trim_newlines data = rdmaDeviceName))"
  using assms getCharDevice_loop_backref
  by (cases "dirs w classDir") (auto simp: getCharDevice_def)

lemma length_append_if_ok: "length (append_if_ok xs r) \<le> Suc (length xs)"
  by (cases r) (auto simp: append_if_ok_def)

lemma GetRdmaCharDevices_at_most_five: "length (GetRdmaCharDevices w rdmaDeviceName) \<le> 5"
proof -
  let ?a = "append_if_ok [] (getUcmDevice w rdmaDeviceName)"
  let ?b = "append_if_ok ?a (getIssmDevice w rdmaDeviceName)"
  let ?c = "append_if_ok ?b (getUmadDevice w rdmaDeviceName)"
  let ?d = "append_if_ok ?c (getUverbDevice w rdmaDeviceName)"
  let ?e = "append_if_ok ?d (getRdmaUcmDevice w)"
  have "length ?a \<le> 1" using length_append_if_ok[of "[]"] by simp
  moreover have "length ?b \<le> Suc (length ?a)" "length ?c \<le> Suc (length ?b)"
    "length ?d \<le> Suc (length ?c)" "length ?e \<le> Suc (length ?d)"
    by (rule length_append_if_ok)+
  ultimately have "length ?e \<le> 5" by linarith
  then show ?thesis by (simp add: GetRdmaCharDevices_def)
qed

end
